theory Spec2Isabelle
  imports Main
begin

section \<open>Data model of the browser client (\<^verbatim>\<open>types.ts\<close>)\<close>

text \<open>
  The client keeps one store (\<^verbatim>\<open>gameStore.ts\<close>, a zustand store) and feeds every
  server event of the WebSocket through \<^verbatim>\<open>ws.onmessage\<close> (\<^verbatim>\<open>useWebSocket.ts\<close>),
  which calls the store's actions. Each action is modelled as a function from the store
  to the new store; \<^verbatim>\<open>set(partial)\<close> of zustand merges the given fields into the
  store, which is a record update here.

  Conventions of the embedding:
  \<^item> a TypeScript \<^verbatim>\<open>number\<close> is an \<open>int\<close>: the reducers only store, copy and compare
    the numbers they receive (player ids, chip counts, seconds);
  \<^item> an optional or nullable field (\<^verbatim>\<open>x?: T\<close>, \<^verbatim>\<open>T | null\<close>) is a \<open>T option\<close>, with
    \<open>None\<close> for both \<^verbatim>\<open>null\<close> and \<^verbatim>\<open>undefined\<close>;
  \<^item> a \<^verbatim>\<open>Record<number, T>\<close> is a map \<open>number \<rightharpoonup> T\<close>;
  \<^item> \<^verbatim>\<open>Date.now()\<close> is an argument \<open>now\<close> of the actions that read the clock;
  \<^item> a field name used by several interfaces carries a prefix in all but one of them
    (\<open>upd_\<close> for the update object, \<open>entry_\<close> for a reasoning entry, \<open>hist_\<close> and
    \<open>timer_\<close> for \<^verbatim>\<open>playerId\<close>); \<^verbatim>\<open>id\<close> of a player is \<open>pid\<close>, and the action types
    carry \<open>act_\<close> since \<open>fold\<close> is a list function of HOL.
\<close>

type_synonym number = int

datatype Street = preflop | flop | turn | river | showdown

datatype ActionType = act_fold | act_check | act_call | act_raise | act_all_in

datatype PlayerType = human | llm

record Card =
  rank :: string
  suit :: string

record ParsedAction =
  action_type :: ActionType
  amount :: "number option"

record PlayerState =
  pid :: number
  name :: string
  player_type :: PlayerType
  model :: "string option"
  stack :: number
  current_bet :: number
  hole_cards :: "Card list option"
  is_active :: bool
  is_busted :: bool
  last_action :: "string option"

record AvailableActions =
  can_fold :: bool
  can_check :: bool
  can_call :: bool
  call_amount :: number
  can_raise :: bool
  min_raise :: number
  max_raise :: number

record GameState =
  session_id :: string
  hand_number :: number
  street :: Street
  pot :: number
  community_cards :: "Card list"
  button_position :: number
  current_actor :: "number option"
  players :: "PlayerState list"
  available_actions :: "AvailableActions option"

record ThinkingStream =
  playerId :: number
  isActive :: bool
  tokens :: string
  parsedAction :: "ParsedAction option"
  startTime :: number

record ReasoningEntry =
  handNumber :: number
  entry_street :: Street
  entry_tokens :: string
  entry_parsedAction :: "ParsedAction option"
  timestamp :: number

record PlayerReasoningHistory =
  hist_playerId :: number
  playerName :: string
  entries :: "ReasoningEntry list"
  isExpanded :: bool

record TurnTimerState =
  timer_playerId :: number
  totalSeconds :: number
  remainingSeconds :: number
  isExpired :: bool

text \<open>The argument of \<^verbatim>\<open>updateGameState\<close>: the fields of a \<^verbatim>\<open>game_state_update\<close> event.\<close>

record GameStateUpdate =
  upd_hand_number :: number
  upd_street :: Street
  upd_pot :: number
  upd_current_actor :: "number option"
  upd_community_cards :: "Card list"
  player_stacks :: "number list"
  player_bets :: "number list"
  last_actions :: "string option list"
  upd_available_actions :: "AvailableActions option"

text \<open>The server events that \<^verbatim>\<open>ws.onmessage\<close> dispatches on, with their payload fields in
  the order of \<^verbatim>\<open>types.ts\<close>.\<close>

datatype ServerEvent =
    ConnectionAckEvent string number
  | GameStateEvent GameState
  | GameStateUpdateEvent GameStateUpdate
  | YourTurnEvent AvailableActions
  | ThinkingStartEvent number string
  | ThinkingTokenEvent number string number
  | ThinkingCompleteEvent number ParsedAction string number
  | TimerStartEvent number number number
  | TimerTickEvent number number
  | TimerExpiredEvent number string
  | HandCompleteEvent "number list" "number list" "number \<rightharpoonup> Card list"
  | SessionCompleteEvent "number list" number
  | ErrorEvent string string
  | PongEvent

section \<open>The store (\<^verbatim>\<open>gameStore.ts\<close>)\<close>

record HandCompleteInfo =
  winners :: "number list"
  amounts :: "number list"
  revealedCards :: "number \<rightharpoonup> Card list"
  isVisible :: bool

record GameStore =
  sessionId :: "string option"
  isConnected :: bool
  connectionError :: "string option"
  gameState :: "GameState option"
  thinkingStreams :: "number \<rightharpoonup> ThinkingStream"
  reasoningHistory :: "number \<rightharpoonup> PlayerReasoningHistory"
  timer :: "TurnTimerState option"
  handComplete :: "HandCompleteInfo option"
  isMyTurn :: bool
  availableActions :: "AvailableActions option"
  lastActions :: "string option list"

definition initialState :: GameStore where
  "initialState =
     \<lparr>sessionId = None, isConnected = False, connectionError = None, gameState = None,
      thinkingStreams = Map.empty, reasoningHistory = Map.empty, timer = None,
      handComplete = None, isMyTurn = False, availableActions = None, lastActions = []\<rparr>"

subsection \<open>JavaScript operators the reducers use\<close>

text \<open>\<^verbatim>\<open>xs[i]\<close>: \<^verbatim>\<open>undefined\<close> past the end of the array.\<close>

definition at_index :: "'a list \<Rightarrow> nat \<Rightarrow> 'a option" where
  "at_index xs i = (if i < length xs then Some (xs ! i) else None)"

text \<open>\<^verbatim>\<open>a ?? b\<close>: \<open>b\<close> when \<open>a\<close> is \<^verbatim>\<open>null\<close> or \<^verbatim>\<open>undefined\<close>.\<close>

definition nullish :: "'a option \<Rightarrow> 'a \<Rightarrow> 'a" where
  "nullish a b = (case a of None \<Rightarrow> b | Some v \<Rightarrow> v)"

text \<open>\<^verbatim>\<open>`${n}`\<close> for an integral number: its decimal digits, built from the last digit
  backwards, with a minus sign for a negative number.\<close>

definition digit_char :: "nat \<Rightarrow> char" where
  "digit_char d = char_of (of_char (CHR ''0'') + d)"

fun digits_onto :: "nat \<Rightarrow> string \<Rightarrow> string" where
  "digits_onto n acc =
     (if n < 10 then digit_char n # acc
      else digits_onto (n div 10) (digit_char (n mod 10) # acc))"

definition numberToString :: "number \<Rightarrow> string" where
  "numberToString i =
     (if 0 \<le> i then digits_onto (nat i) [] else CHR ''-'' # digits_onto (nat (- i)) [])"

subsection \<open>Connection and game state actions\<close>

definition setSessionId :: "string option \<Rightarrow> GameStore \<Rightarrow> GameStore" where
  "setSessionId sid state = state\<lparr>sessionId := sid\<rparr>"

definition setConnected :: "bool \<Rightarrow> GameStore \<Rightarrow> GameStore" where
  "setConnected connected state = state\<lparr>isConnected := connected\<rparr>"

definition setConnectionError :: "string option \<Rightarrow> GameStore \<Rightarrow> GameStore" where
  "setConnectionError err state = state\<lparr>connectionError := err\<rparr>"

definition setGameState :: "GameState \<Rightarrow> GameStore \<Rightarrow> GameStore" where
  "setGameState gs state =
     state\<lparr>gameState := Some gs,
           isMyTurn := (current_actor gs = Some 0),
           availableActions := available_actions gs\<rparr>"

text \<open>The callback of \<^verbatim>\<open>players.map\<close> in \<^verbatim>\<open>updateGameState\<close>. An entry of
  \<^verbatim>\<open>last_actions\<close> may itself be \<^verbatim>\<open>null\<close>, which \<^verbatim>\<open>??\<close> treats like a missing one.\<close>

definition updatePlayer :: "GameStateUpdate \<Rightarrow> nat \<Rightarrow> PlayerState \<Rightarrow> PlayerState" where
  "updatePlayer update idx player =
     player\<lparr>stack := nullish (at_index (player_stacks update) idx) (stack player),
            current_bet := nullish (at_index (player_bets update) idx) (current_bet player),
            last_action :=
              (case at_index (last_actions update) idx of
                 Some (Some a) \<Rightarrow> Some a
               | _ \<Rightarrow> last_action player)\<rparr>"

definition updateGameState :: "GameStateUpdate \<Rightarrow> GameStore \<Rightarrow> GameStore" where
  "updateGameState update state =
     (case gameState state of
        None \<Rightarrow> state
      | Some gs \<Rightarrow>
          (let updatedPlayers =
                 map (\<lambda>(idx, player). updatePlayer update idx player) (enumerate 0 (players gs))
           in state\<lparr>gameState :=
                      Some (gs\<lparr>hand_number := upd_hand_number update,
                               street := upd_street update,
                               pot := upd_pot update,
                               current_actor := upd_current_actor update,
                               community_cards := upd_community_cards update,
                               players := updatedPlayers,
                               available_actions := upd_available_actions update\<rparr>),
                    isMyTurn := (upd_current_actor update = Some 0),
                    availableActions := upd_available_actions update,
                    lastActions := last_actions update\<rparr>))"

definition setMyTurn :: "bool \<Rightarrow> AvailableActions option \<Rightarrow> GameStore \<Rightarrow> GameStore" where
  "setMyTurn myTurn actions state = state\<lparr>isMyTurn := myTurn, availableActions := actions\<rparr>"

subsection \<open>Thinking stream actions\<close>

definition startThinking :: "number \<Rightarrow> number \<Rightarrow> string \<Rightarrow> GameStore \<Rightarrow> GameStore" where
  "startThinking now p pname state =
     (let updatedHistory =
            (case reasoningHistory state p of
               Some existingHistory \<Rightarrow> existingHistory
             | None \<Rightarrow> \<lparr>hist_playerId = p, playerName = pname, entries = [], isExpanded = True\<rparr>)
      in state\<lparr>thinkingStreams :=
                 (thinkingStreams state)
                   (p \<mapsto> \<lparr>playerId = p, isActive = True, tokens = [], parsedAction = None,
                          startTime = now\<rparr>),
               reasoningHistory := (reasoningHistory state)(p \<mapsto> updatedHistory)\<rparr>)"

definition addThinkingToken :: "number \<Rightarrow> string \<Rightarrow> GameStore \<Rightarrow> GameStore" where
  "addThinkingToken p token state =
     (case thinkingStreams state p of
        None \<Rightarrow> state
      | Some stream \<Rightarrow>
          state\<lparr>thinkingStreams :=
                  (thinkingStreams state)(p \<mapsto> stream\<lparr>tokens := tokens stream @ token\<rparr>)\<rparr>)"

definition completeThinking :: "number \<Rightarrow> number \<Rightarrow> ParsedAction \<Rightarrow> GameStore \<Rightarrow> GameStore" where
  "completeThinking now p action state =
     (case thinkingStreams state p of
        None \<Rightarrow> state
      | Some stream \<Rightarrow>
          (let newEntry =
                 \<lparr>handNumber = (case gameState state of None \<Rightarrow> 0 | Some gs \<Rightarrow> hand_number gs),
                  entry_street = (case gameState state of None \<Rightarrow> preflop | Some gs \<Rightarrow> street gs),
                  entry_tokens = tokens stream,
                  entry_parsedAction = Some action,
                  timestamp = now\<rparr>;
               updatedHistory =
                 (case reasoningHistory state p of
                    Some playerHistory \<Rightarrow>
                      playerHistory\<lparr>entries := entries playerHistory @ [newEntry]\<rparr>
                  | None \<Rightarrow>
                      \<lparr>hist_playerId = p, playerName = ''Player '' @ numberToString p,
                       entries = [newEntry], isExpanded = True\<rparr>)
           in state\<lparr>thinkingStreams :=
                      (thinkingStreams state)
                        (p \<mapsto> stream\<lparr>isActive := False, parsedAction := Some action\<rparr>),
                    reasoningHistory := (reasoningHistory state)(p \<mapsto> updatedHistory)\<rparr>))"

definition clearThinking :: "number \<Rightarrow> GameStore \<Rightarrow> GameStore" where
  "clearThinking p state = state\<lparr>thinkingStreams := (thinkingStreams state)(p := None)\<rparr>"

definition clearAllThinking :: "GameStore \<Rightarrow> GameStore" where
  "clearAllThinking state = state\<lparr>thinkingStreams := Map.empty\<rparr>"

subsection \<open>Reasoning history, timer and hand-complete actions\<close>

definition toggleReasoningExpanded :: "number \<Rightarrow> GameStore \<Rightarrow> GameStore" where
  "toggleReasoningExpanded p state =
     (case reasoningHistory state p of
        None \<Rightarrow> state
      | Some playerHistory \<Rightarrow>
          state\<lparr>reasoningHistory :=
                  (reasoningHistory state)
                    (p \<mapsto> playerHistory\<lparr>isExpanded := \<not> isExpanded playerHistory\<rparr>)\<rparr>)"

definition clearReasoningHistory :: "GameStore \<Rightarrow> GameStore" where
  "clearReasoningHistory state = state\<lparr>reasoningHistory := Map.empty\<rparr>"

definition startTimer :: "number \<Rightarrow> number \<Rightarrow> GameStore \<Rightarrow> GameStore" where
  "startTimer p secs state =
     state\<lparr>timer := Some \<lparr>timer_playerId = p, totalSeconds = secs,
                          remainingSeconds = secs, isExpired = False\<rparr>\<rparr>"

definition updateTimer :: "number \<Rightarrow> GameStore \<Rightarrow> GameStore" where
  "updateTimer remaining state =
     (case timer state of
        None \<Rightarrow> state
      | Some t \<Rightarrow> state\<lparr>timer := Some (t\<lparr>remainingSeconds := remaining\<rparr>)\<rparr>)"

definition expireTimer :: "GameStore \<Rightarrow> GameStore" where
  "expireTimer state =
     (case timer state of
        None \<Rightarrow> state
      | Some t \<Rightarrow>
          state\<lparr>timer := Some (t\<lparr>isExpired := True, remainingSeconds := 0\<rparr>),
                isMyTurn := False\<rparr>)"

definition clearTimer :: "GameStore \<Rightarrow> GameStore" where
  "clearTimer state = state\<lparr>timer := None\<rparr>"

definition setHandComplete ::
  "number list \<Rightarrow> number list \<Rightarrow> (number \<rightharpoonup> Card list) \<Rightarrow> GameStore \<Rightarrow> GameStore" where
  "setHandComplete ws amts cards state =
     state\<lparr>handComplete :=
             Some \<lparr>winners = ws, amounts = amts, revealedCards = cards, isVisible = True\<rparr>,
           reasoningHistory := Map.empty,
           thinkingStreams := Map.empty\<rparr>"

definition dismissHandComplete :: "GameStore \<Rightarrow> GameStore" where
  "dismissHandComplete state = state\<lparr>handComplete := None\<rparr>"

definition reset :: "GameStore \<Rightarrow> GameStore" where
  "reset state = initialState"

section \<open>The event handler (\<^verbatim>\<open>ws.onmessage\<close> of \<^verbatim>\<open>useWebSocket.ts\<close>)\<close>

text \<open>One branch per \<^verbatim>\<open>case\<close> of the switch, the store's actions applied in the order the
  handler calls them. Logging and the \<^verbatim>\<open>onConnect\<close>/\<^verbatim>\<open>onError\<close> callbacks do not touch
  the store. The argument is the event as \<^verbatim>\<open>JSON.parse\<close> returned it: a message that does
  not parse, or whose type is none of these, leaves the store as it is.\<close>

fun onmessage :: "number \<Rightarrow> ServerEvent \<Rightarrow> GameStore \<Rightarrow> GameStore" where
  "onmessage now (ConnectionAckEvent sid p) state =
     setConnectionError None (setConnected True state)"
| "onmessage now (GameStateEvent gs) state = clearAllThinking (setGameState gs state)"
| "onmessage now (GameStateUpdateEvent update) state = updateGameState update state"
| "onmessage now (YourTurnEvent actions) state = setMyTurn True (Some actions) state"
| "onmessage now (ThinkingStartEvent p pname) state = startThinking now p pname state"
| "onmessage now (ThinkingTokenEvent p token ts) state = addThinkingToken p token state"
| "onmessage now (ThinkingCompleteEvent p action full_text duration_ms) state =
     completeThinking now p action state"
| "onmessage now (TimerStartEvent p secs ts) state = startTimer p secs state"
| "onmessage now (TimerTickEvent p remaining) state = updateTimer remaining state"
| "onmessage now (TimerExpiredEvent p action_taken) state = expireTimer state"
| "onmessage now (HandCompleteEvent ws amts cards) state =
     setHandComplete ws amts cards (clearTimer state)"
| "onmessage now (SessionCompleteEvent final_stacks hands_played) state = state"
| "onmessage now (ErrorEvent code message) state = setConnectionError (Some message) state"
| "onmessage now PongEvent state = state"

text \<open>\<^verbatim>\<open>sendAction\<close> of the same hook, on the store: once the human's move is sent, the
  my-turn flag is turned off and the timer is removed.\<close>

definition sendAction :: "GameStore \<Rightarrow> GameStore" where
  "sendAction state = clearTimer (setMyTurn False None state)"

section \<open>Concrete stores and events\<close>

text \<open>A two-player hand, the human in slot 0 and one automated player in slot 1, and the
  stores the client reaches in it. They are the inputs at which the theorems below are
  instantiated.\<close>

definition example_actions :: AvailableActions where
  "example_actions =
     \<lparr>can_fold = True, can_check = False, can_call = True, call_amount = 50,
      can_raise = True, min_raise = 200, max_raise = 9950\<rparr>"

definition example_players :: "PlayerState list" where
  "example_players =
     [\<lparr>pid = 0, name = ''You'', player_type = human, model = None, stack = 9950,
       current_bet = 50,
       hole_cards = Some [\<lparr>rank = ''A'', suit = ''s''\<rparr>, \<lparr>rank = ''K'', suit = ''s''\<rparr>],
       is_active = True, is_busted = False, last_action = None\<rparr>,
      \<lparr>pid = 1, name = ''Bot'', player_type = llm, model = Some ''llama3'', stack = 9900,
       current_bet = 100, hole_cards = None, is_active = True, is_busted = False,
       last_action = Some ''raise''\<rparr>]"

definition example_game :: GameState where
  "example_game =
     \<lparr>session_id = ''s1'', hand_number = 1, street = preflop, pot = 150,
      community_cards = [], button_position = 0, current_actor = Some 1,
      players = example_players, available_actions = None\<rparr>"

definition example_update :: GameStateUpdate where
  "example_update =
     \<lparr>upd_hand_number = 1, upd_street = flop, upd_pot = 200, upd_current_actor = Some 0,
      upd_community_cards =
        [\<lparr>rank = ''2'', suit = ''c''\<rparr>, \<lparr>rank = ''7'', suit = ''d''\<rparr>, \<lparr>rank = ''T'', suit = ''h''\<rparr>],
      player_stacks = [9900], player_bets = [0, 0], last_actions = [Some ''call'', None],
      upd_available_actions = Some example_actions\<rparr>"

text \<open>The store after the first full-state event of a session.\<close>

definition store_in_hand :: GameStore where
  "store_in_hand = onmessage 0 (GameStateEvent example_game) initialState"

text \<open>The store while the automated player of slot 1 is reasoning.\<close>

definition store_thinking :: GameStore where
  "store_thinking =
     onmessage 1000 (ThinkingStartEvent 1 ''Bot'')
       (onmessage 900 (ThinkingStartEvent 2 ''Other'') store_in_hand)"

text \<open>The store during the human's turn, the countdown running.\<close>

definition store_my_turn :: GameStore where
  "store_my_turn =
     onmessage 2 (TimerStartEvent 0 30 2)
       (onmessage 1 (YourTurnEvent example_actions) store_in_hand)"

text \<open>Which events are timer events.\<close>

fun is_timer_event :: "ServerEvent \<Rightarrow> bool" where
  "is_timer_event (TimerStartEvent p secs ts) = True"
| "is_timer_event (TimerTickEvent p remaining) = True"
| "is_timer_event (TimerExpiredEvent p action_taken) = True"
| "is_timer_event e = False"

fun is_timer_expired :: "ServerEvent \<Rightarrow> bool" where
  "is_timer_expired (TimerExpiredEvent p action_taken) = True"
| "is_timer_expired e = False"

text \<open>The store with the start timestamp of every thinking stream set to 0: two stores
  equal under it differ at most in recorded start timestamps.\<close>

definition forgetStartTimes :: "GameStore \<Rightarrow> GameStore" where
  "forgetStartTimes state =
     state\<lparr>thinkingStreams :=
             (\<lambda>p. map_option (\<lambda>stream. stream\<lparr>startTime := 0\<rparr>) (thinkingStreams state p))\<rparr>"

section \<open>Facts about the concrete stores\<close>

lemma store_in_hand_eq: "store_in_hand = initialState\<lparr>gameState := Some example_game\<rparr>"
  by (simp add: store_in_hand_def setGameState_def clearAllThinking_def initialState_def
      example_game_def)

lemma store_in_hand_fields:
  "gameState store_in_hand = Some example_game"
  "\<not> isMyTurn store_in_hand"
  by (simp_all add: store_in_hand_eq initialState_def)

lemma store_thinking_stream:
  "thinkingStreams store_thinking 1 =
     Some \<lparr>playerId = 1, isActive = True, tokens = [], parsedAction = None, startTime = 1000\<rparr>"
  by (simp add: store_thinking_def startThinking_def)

lemma store_thinking_other:
  "thinkingStreams store_thinking 2 =
     Some \<lparr>playerId = 2, isActive = True, tokens = [], parsedAction = None, startTime = 900\<rparr>"
  by (simp add: store_thinking_def startThinking_def)

lemma store_my_turn_fields:
  "isMyTurn store_my_turn"
  "timer store_my_turn =
     Some \<lparr>timer_playerId = 0, totalSeconds = 30, remainingSeconds = 30, isExpired = False\<rparr>"
  "gameState store_my_turn = Some example_game"
  "availableActions store_my_turn = Some example_actions"
  by (simp_all add: store_my_turn_def store_in_hand_eq initialState_def startTimer_def
      setMyTurn_def)

section \<open>Events that find nothing to update\<close>

text \<open>
  Claim C9. A delta event that arrives while the store holds no game state is dropped
  as a whole: \<^verbatim>\<open>updateGameState\<close> returns the store it was given, and so does the
  handler of \<^verbatim>\<open>game_state_update\<close>.
\<close>

theorem updateGameState_without_game_state:
  "gameState state = None \<Longrightarrow>
     updateGameState update state = state \<and>
     onmessage now (GameStateUpdateEvent update) state = state"
  by (simp add: updateGameState_def)

theorem updateGameState_without_game_state_witness:
  "gameState initialState = None \<and>
   updateGameState example_update initialState = initialState \<and>
   onmessage 5 (GameStateUpdateEvent example_update) initialState = initialState"
  using updateGameState_without_game_state [of initialState example_update 5]
  by (simp add: initialState_def)

text \<open>
  Claim C10. A reasoning-token or reasoning-complete event for an actor that has no
  thinking stream changes nothing: \<^verbatim>\<open>addThinkingToken\<close> and \<^verbatim>\<open>completeThinking\<close>
  return the store they were given (no stream is created, the token text and the parsed
  move are discarded), and so do the handlers of the two events.
\<close>

theorem thinking_events_without_stream:
  "thinkingStreams state p = None \<Longrightarrow>
     addThinkingToken p token state = state \<and>
     completeThinking now p action state = state \<and>
     onmessage now (ThinkingTokenEvent p token ts) state = state \<and>
     onmessage now (ThinkingCompleteEvent p action full_text duration_ms) state = state"
  by (simp add: addThinkingToken_def completeThinking_def)

theorem thinking_events_without_stream_witness:
  "thinkingStreams store_thinking 3 = None \<and>
   addThinkingToken 3 ''I should call'' store_thinking = store_thinking \<and>
   completeThinking 1700 3 \<lparr>action_type = act_call, amount = None\<rparr> store_thinking =
     store_thinking"
proof -
  have h: "thinkingStreams store_thinking 3 = None"
    by (simp add: store_thinking_def startThinking_def store_in_hand_eq initialState_def)
  from thinking_events_without_stream [OF h] h show ?thesis by simp
qed

section \<open>Thinking streams\<close>

lemma addThinkingToken_present:
  "thinkingStreams state p = Some stream \<Longrightarrow>
     addThinkingToken p token state =
       state\<lparr>thinkingStreams :=
               (thinkingStreams state)(p \<mapsto> stream\<lparr>tokens := tokens stream @ token\<rparr>)\<rparr>"
  by (simp add: addThinkingToken_def)

text \<open>A run of token events for one actor, in delivery order, rewrites that actor's stream
  only: proved by induction on the run, the store and the stream generalised since each
  event changes them.\<close>

lemma addThinkingToken_fold:
  "thinkingStreams state p = Some stream \<Longrightarrow>
     foldl (\<lambda>s token. addThinkingToken p token s) state toks =
       state\<lparr>thinkingStreams :=
               (thinkingStreams state)(p \<mapsto> stream\<lparr>tokens := tokens stream @ concat toks\<rparr>)\<rparr>"
proof (induction toks arbitrary: state stream)
  case Nil
  then show ?case by (simp add: fun_upd_idem)
next
  case (Cons token toks)
  let ?s = "addThinkingToken p token state"
  let ?st = "stream\<lparr>tokens := tokens stream @ token\<rparr>"
  have step: "?s = state\<lparr>thinkingStreams := (thinkingStreams state)(p \<mapsto> ?st)\<rparr>"
    using Cons.prems by (rule addThinkingToken_present)
  then have "thinkingStreams ?s p = Some ?st" by simp
  from Cons.IH [OF this] show ?case by (simp add: step cong: if_cong)
qed

text \<open>
  Claim C3. Token accumulation is lossless and keeps the order: when the actor \<open>p\<close> has a
  thinking stream, applying \<^verbatim>\<open>addThinkingToken\<close> for \<open>p\<close> to the tokens \<open>toks\<close> in delivery
  order leaves \<open>p\<close>'s stream with its previous text followed by the tokens in that order
  (nothing else of the stream changes), and the stream of every other actor is as
  before.
\<close>

theorem token_accumulation:
  "thinkingStreams state p = Some stream \<Longrightarrow>
     thinkingStreams (foldl (\<lambda>s token. addThinkingToken p token s) state toks) p =
       Some (stream\<lparr>tokens := tokens stream @ concat toks\<rparr>) \<and>
     (\<forall>q. q \<noteq> p \<longrightarrow>
        thinkingStreams (foldl (\<lambda>s token. addThinkingToken p token s) state toks) q =
          thinkingStreams state q)"
  by (simp add: addThinkingToken_fold)

theorem token_accumulation_witness:
  "thinkingStreams store_thinking 1 =
     Some \<lparr>playerId = 1, isActive = True, tokens = [], parsedAction = None, startTime = 1000\<rparr> \<and>
   thinkingStreams
     (foldl (\<lambda>s token. addThinkingToken 1 token s) store_thinking [''He'', ''l'', ''lo'']) 1 =
     Some \<lparr>playerId = 1, isActive = True, tokens = ''Hello'', parsedAction = None,
           startTime = 1000\<rparr> \<and>
   thinkingStreams
     (foldl (\<lambda>s token. addThinkingToken 1 token s) store_thinking [''He'', ''l'', ''lo'']) 2 =
     Some \<lparr>playerId = 2, isActive = True, tokens = [], parsedAction = None, startTime = 900\<rparr>"
proof -
  let ?s = "foldl (\<lambda>s token. addThinkingToken 1 token s) store_thinking [''He'', ''l'', ''lo'']"
  note acc = token_accumulation [OF store_thinking_stream, of "[''He'', ''l'', ''lo'']"]
  from acc have one: "thinkingStreams ?s 1 =
      Some \<lparr>playerId = 1, isActive = True, tokens = ''Hello'', parsedAction = None,
            startTime = 1000\<rparr>"
    by simp
  from acc have "\<forall>q. q \<noteq> 1 \<longrightarrow> thinkingStreams ?s q = thinkingStreams store_thinking q"
    by (rule conjunct2)
  then have "thinkingStreams ?s 2 = thinkingStreams store_thinking 2" by simp
  with one show ?thesis by (simp only: store_thinking_stream store_thinking_other simp_thms)
qed

text \<open>
  Claim C7. A reasoning-complete event freezes the actor's stream and records the parsed
  move: when the actor \<open>p\<close> has a thinking stream, after \<^verbatim>\<open>completeThinking\<close> (which is
  all the handler of \<^verbatim>\<open>thinking_complete\<close> runs) \<open>p\<close> still has a stream, with the same
  accumulated text, the active flag false and the event's move as parsed action.
\<close>

theorem completeThinking_freezes:
  "thinkingStreams state p = Some stream \<Longrightarrow>
     (\<exists>stream'. thinkingStreams (completeThinking now p action state) p = Some stream' \<and>
        tokens stream' = tokens stream \<and>
        \<not> isActive stream' \<and>
        parsedAction stream' = Some action) \<and>
     onmessage now (ThinkingCompleteEvent p action full_text duration_ms) state =
       completeThinking now p action state"
  by (simp add: completeThinking_def Let_def)

theorem completeThinking_freezes_witness:
  "thinkingStreams (addThinkingToken 1 ''I call'' store_thinking) 1 =
     Some \<lparr>playerId = 1, isActive = True, tokens = ''I call'', parsedAction = None,
           startTime = 1000\<rparr> \<and>
   map_option tokens
     (thinkingStreams
        (completeThinking 2000 1 \<lparr>action_type = act_call, amount = None\<rparr>
           (addThinkingToken 1 ''I call'' store_thinking)) 1) = Some ''I call'' \<and>
   map_option isActive
     (thinkingStreams
        (completeThinking 2000 1 \<lparr>action_type = act_call, amount = None\<rparr>
           (addThinkingToken 1 ''I call'' store_thinking)) 1) = Some False \<and>
   map_option parsedAction
     (thinkingStreams
        (completeThinking 2000 1 \<lparr>action_type = act_call, amount = None\<rparr>
           (addThinkingToken 1 ''I call'' store_thinking)) 1) =
     Some (Some \<lparr>action_type = act_call, amount = None\<rparr>)"
proof -
  have h: "thinkingStreams (addThinkingToken 1 ''I call'' store_thinking) 1 =
     Some \<lparr>playerId = 1, isActive = True, tokens = ''I call'', parsedAction = None,
           startTime = 1000\<rparr>"
    by (simp add: addThinkingToken_def store_thinking_stream)
  from completeThinking_freezes [OF h, of 2000 "\<lparr>action_type = act_call, amount = None\<rparr>"]
  obtain stream' where
    "thinkingStreams
        (completeThinking 2000 1 \<lparr>action_type = act_call, amount = None\<rparr>
           (addThinkingToken 1 ''I call'' store_thinking)) 1 = Some stream'"
    "tokens stream' = ''I call''" "\<not> isActive stream'"
    "parsedAction stream' = Some \<lparr>action_type = act_call, amount = None\<rparr>"
    by auto
  with h show ?thesis by simp
qed

text \<open>
  Claim C8. A reasoning-start event gives the actor an empty stream (empty text, active,
  no parsed action, the clock reading as start time), whatever the store held for the
  actor before, and it is idempotent up to the start timestamp: starting twice (at \<open>now\<close>,
  then at \<open>now'\<close>, under any display names) yields the store that starting once at
  \<open>now'\<close> yields, and the same store as starting once at \<open>now\<close> when start timestamps are
  disregarded.
\<close>

theorem startThinking_init_idempotent:
  "thinkingStreams (startThinking now p pname state) p =
     Some \<lparr>playerId = p, isActive = True, tokens = [], parsedAction = None, startTime = now\<rparr> \<and>
   startThinking now' p pname' (startThinking now p pname state) =
     startThinking now' p pname state \<and>
   forgetStartTimes (startThinking now' p pname' (startThinking now p pname state)) =
     forgetStartTimes (startThinking now p pname state)"
  by (simp add: startThinking_def forgetStartTimes_def Let_def fun_eq_iff split: option.splits)

text \<open>At the first store of a session: the second start event only moves the start time,
  which is why the two stores are equal only up to it.\<close>

theorem startThinking_init_idempotent_witness:
  "thinkingStreams (startThinking 1000 1 ''Bot'' store_in_hand) 1 =
     Some \<lparr>playerId = 1, isActive = True, tokens = [], parsedAction = None, startTime = 1000\<rparr> \<and>
   startThinking 1500 1 ''Bot'' (startThinking 1000 1 ''Bot'' store_in_hand) =
     startThinking 1500 1 ''Bot'' store_in_hand \<and>
   forgetStartTimes (startThinking 1500 1 ''Bot'' (startThinking 1000 1 ''Bot'' store_in_hand)) =
     forgetStartTimes (startThinking 1000 1 ''Bot'' store_in_hand) \<and>
   startThinking 1500 1 ''Bot'' (startThinking 1000 1 ''Bot'' store_in_hand) \<noteq>
     startThinking 1000 1 ''Bot'' store_in_hand"
proof -
  note idem = startThinking_init_idempotent [of 1000 1 "''Bot''" store_in_hand 1500 "''Bot''"]
  have "thinkingStreams (startThinking 1500 1 ''Bot'' store_in_hand) 1 \<noteq>
      thinkingStreams (startThinking 1000 1 ''Bot'' store_in_hand) 1"
    by (simp add: startThinking_def)
  then have ne: "startThinking 1500 1 ''Bot'' store_in_hand \<noteq>
      startThinking 1000 1 ''Bot'' store_in_hand"
    by auto
  from idem have twice: "startThinking 1500 1 ''Bot'' (startThinking 1000 1 ''Bot'' store_in_hand) =
      startThinking 1500 1 ''Bot'' store_in_hand"
    by blast
  have "startThinking 1500 1 ''Bot'' (startThinking 1000 1 ''Bot'' store_in_hand) \<noteq>
      startThinking 1000 1 ''Bot'' store_in_hand"
    unfolding twice by (rule ne)
  with idem show ?thesis by blast
qed

section \<open>Delta events\<close>

lemma updatePlayer_idem:
  "updatePlayer update idx (updatePlayer update idx player) = updatePlayer update idx player"
  by (simp add: updatePlayer_def nullish_def split: option.splits)

lemma updatedPlayers_idem:
  "map (\<lambda>(idx, player). updatePlayer update idx player)
     (enumerate n (map (\<lambda>(idx, player). updatePlayer update idx player) (enumerate n ps))) =
   map (\<lambda>(idx, player). updatePlayer update idx player) (enumerate n ps)"
  by (induction ps arbitrary: n) (simp_all add: updatePlayer_idem)

lemma updateGameState_idem:
  "updateGameState update (updateGameState update state) = updateGameState update state"
proof (cases "gameState state")
  case None
  then show ?thesis by (simp add: updateGameState_def)
next
  case (Some gs)
  then show ?thesis by (simp add: updateGameState_def updatedPlayers_idem)
qed

text \<open>
  Claim C4. The delta merge is idempotent: for a store that holds a game state and any
  delta, \<^verbatim>\<open>updateGameState\<close> applied twice with the delta gives the store that applying
  it once gives.
\<close>

theorem delta_merge_idempotent:
  "gameState state \<noteq> None \<Longrightarrow>
     updateGameState update (updateGameState update state) = updateGameState update state"
  by (rule updateGameState_idem)

theorem delta_merge_idempotent_witness:
  "gameState store_in_hand \<noteq> None \<and>
   updateGameState example_update store_in_hand \<noteq> store_in_hand \<and>
   updateGameState example_update (updateGameState example_update store_in_hand) =
     updateGameState example_update store_in_hand"
proof -
  have h: "gameState store_in_hand \<noteq> None"
    by (simp add: store_in_hand_fields)
  have "isMyTurn (updateGameState example_update store_in_hand) \<noteq> isMyTurn store_in_hand"
    by (simp add: store_in_hand_fields updateGameState_def example_update_def)
  then have "updateGameState example_update store_in_hand \<noteq> store_in_hand" by auto
  with h delta_merge_idempotent [OF h, of example_update] show ?thesis by simp
qed

text \<open>
  Claim C5. A delta event leaves alone what it does not carry: for a store that holds a
  game state, after \<^verbatim>\<open>updateGameState\<close> the store still holds a game state, with the
  same session id and button position and as many players, each with the id, name,
  player type, model, hole cards, active flag and busted flag it had.
\<close>

theorem delta_frame:
  "gameState state = Some gs \<Longrightarrow>
     (\<exists>gs'. gameState (updateGameState update state) = Some gs' \<and>
        session_id gs' = session_id gs \<and>
        button_position gs' = button_position gs \<and>
        length (players gs') = length (players gs) \<and>
        (\<forall>i < length (players gs).
           pid (players gs' ! i) = pid (players gs ! i) \<and>
           name (players gs' ! i) = name (players gs ! i) \<and>
           player_type (players gs' ! i) = player_type (players gs ! i) \<and>
           model (players gs' ! i) = model (players gs ! i) \<and>
           hole_cards (players gs' ! i) = hole_cards (players gs ! i) \<and>
           is_active (players gs' ! i) = is_active (players gs ! i) \<and>
           is_busted (players gs' ! i) = is_busted (players gs ! i)))"
  by (simp add: updateGameState_def nth_enumerate_eq updatePlayer_def)

theorem delta_frame_witness:
  "gameState store_in_hand = Some example_game \<and>
   map_option session_id (gameState (updateGameState example_update store_in_hand)) =
     Some ''s1'' \<and>
   map_option button_position (gameState (updateGameState example_update store_in_hand)) =
     Some 0 \<and>
   map_option (map name \<circ> players) (gameState (updateGameState example_update store_in_hand)) =
     Some [''You'', ''Bot'']"
proof -
  have h: "gameState store_in_hand = Some example_game"
    by (simp add: store_in_hand_fields)
  from delta_frame [OF h, of example_update] obtain gs' where
    g: "gameState (updateGameState example_update store_in_hand) = Some gs'"
    and s: "session_id gs' = session_id example_game"
    and b: "button_position gs' = button_position example_game"
    and l: "length (players gs') = length (players example_game)"
    and n: "\<forall>i < length (players example_game).
              name (players gs' ! i) = name (players example_game ! i)"
    by blast
  have "map name (players gs') = map name (players example_game)"
    using l n by (simp add: list_eq_iff_nth_eq)
  then show ?thesis
    using h g s b by (simp add: example_game_def example_players_def)
qed

section \<open>The my-turn flag\<close>

text \<open>
  Claim C6, as amended. After a full-state event the my-turn flag is true exactly when
  the event's current actor is slot 0. After a delta event the same holds when the
  store holds a game state; a delta event processed while the store holds none is
  dropped and leaves the flag as it was.
\<close>

theorem my_turn_after_state_event:
  "isMyTurn (onmessage now (GameStateEvent gs) state) = (current_actor gs = Some 0) \<and>
   (gameState state \<noteq> None \<longrightarrow>
      isMyTurn (onmessage now (GameStateUpdateEvent update) state) =
        (upd_current_actor update = Some 0)) \<and>
   (gameState state = None \<longrightarrow>
      isMyTurn (onmessage now (GameStateUpdateEvent update) state) = isMyTurn state)"
  by (auto simp: setGameState_def clearAllThinking_def updateGameState_def)

theorem my_turn_after_state_event_witness:
  "gameState store_in_hand \<noteq> None \<and>
   upd_current_actor example_update = Some 0 \<and>
   \<not> isMyTurn store_in_hand \<and>
   isMyTurn (onmessage 5 (GameStateUpdateEvent example_update) store_in_hand) \<and>
   current_actor example_game = Some 1 \<and>
   \<not> isMyTurn (onmessage 6 (GameStateEvent example_game)
        (onmessage 5 (GameStateUpdateEvent example_update) store_in_hand)) \<and>
   gameState initialState = None \<and>
   \<not> isMyTurn initialState \<and>
   \<not> isMyTurn (onmessage 5 (GameStateUpdateEvent example_update) initialState)"
proof -
  have i: "gameState initialState = None" "\<not> isMyTurn initialState"
    by (simp_all add: initialState_def)
  have h: "gameState store_in_hand \<noteq> None"
    by (simp add: store_in_hand_fields)
  have a: "upd_current_actor example_update = Some 0"
    by (simp add: example_update_def)
  have c: "current_actor example_game = Some 1"
    by (simp add: example_game_def)
  have n: "\<not> isMyTurn store_in_hand"
    by (simp add: store_in_hand_fields)
  show ?thesis
    using h a c n i
      my_turn_after_state_event [of 5 example_game store_in_hand example_update]
      my_turn_after_state_event [of 6 example_game
        "onmessage 5 (GameStateUpdateEvent example_update) store_in_hand" example_update]
      my_turn_after_state_event [of 5 example_game initialState example_update]
    by simp
qed

text \<open>The claim as stated fails for a delta event that is the first event of a session:
  its current actor is slot 0, and the flag stays false.\<close>

theorem my_turn_counterexample:
  "\<not> (isMyTurn (onmessage 5 (GameStateUpdateEvent example_update) initialState) =
        (upd_current_actor example_update = Some 0))"
  by (simp add: updateGameState_def initialState_def example_update_def)

section \<open>Full-state events and timer events\<close>

text \<open>
  Claim C1, as amended. After the handler of a full-state event the stored game state is
  the event's snapshot and no actor has a thinking stream; the timer is what it was
  before the event (the handler does not clear it).
\<close>

theorem full_state_event:
  "gameState (onmessage now (GameStateEvent gs) state) = Some gs \<and>
   thinkingStreams (onmessage now (GameStateEvent gs) state) = Map.empty \<and>
   timer (onmessage now (GameStateEvent gs) state) = timer state"
  by (simp add: setGameState_def clearAllThinking_def)

theorem full_state_event_witness:
  "thinkingStreams store_thinking 1 \<noteq> None \<and>
   gameState (onmessage 1200 (GameStateEvent (example_game\<lparr>hand_number := 2\<rparr>)) store_thinking) =
     Some (example_game\<lparr>hand_number := 2\<rparr>) \<and>
   thinkingStreams
     (onmessage 1200 (GameStateEvent (example_game\<lparr>hand_number := 2\<rparr>)) store_thinking) 1 = None \<and>
   timer (onmessage 3 (GameStateEvent example_game) store_my_turn) =
     Some \<lparr>timer_playerId = 0, totalSeconds = 30, remainingSeconds = 30, isExpired = False\<rparr>"
  using full_state_event [of 1200 "example_game\<lparr>hand_number := 2\<rparr>" store_thinking]
    full_state_event [of 3 example_game store_my_turn]
  by (simp add: store_thinking_stream store_my_turn_fields)

text \<open>The claim as stated fails for a full-state event that arrives while the countdown
  of the human's turn is running: the timer is still there afterwards.\<close>

theorem full_state_counterexample:
  "\<not> (gameState (onmessage 3 (GameStateEvent example_game) store_my_turn) = Some example_game \<and>
      dom (thinkingStreams (onmessage 3 (GameStateEvent example_game) store_my_turn)) = {} \<and>
      timer (onmessage 3 (GameStateEvent example_game) store_my_turn) = None)"
  by (simp add: setGameState_def clearAllThinking_def store_my_turn_fields)

text \<open>
  Claim C2, as amended. A timer event changes no field of the store but the timer and
  the my-turn flag; in particular the game state and the available actions are as
  before. \<^verbatim>\<open>timer_start\<close> and \<^verbatim>\<open>timer_tick\<close> leave the my-turn flag as it was;
  \<^verbatim>\<open>timer_expired\<close> sets it to false when the store holds a timer and leaves it as it
  was otherwise. So a timer event never turns the flag on.
\<close>

theorem timer_events_frame:
  "is_timer_event e \<Longrightarrow>
     gameState (onmessage now e state) = gameState state \<and>
     availableActions (onmessage now e state) = availableActions state \<and>
     (onmessage now e state)\<lparr>timer := timer state, isMyTurn := isMyTurn state\<rparr> = state \<and>
     isMyTurn (onmessage now e state) =
       (isMyTurn state \<and> \<not> (is_timer_expired e \<and> timer state \<noteq> None))"
  by (cases e)
    (auto simp: startTimer_def updateTimer_def expireTimer_def split: option.splits)

theorem timer_events_frame_witness:
  "is_timer_event (TimerTickEvent 0 29) \<and>
   is_timer_event (TimerExpiredEvent 0 ''fold'') \<and>
   isMyTurn (onmessage 3 (TimerTickEvent 0 29) store_my_turn) \<and>
   gameState (onmessage 3 (TimerTickEvent 0 29) store_my_turn) = Some example_game \<and>
   availableActions (onmessage 32 (TimerExpiredEvent 0 ''fold'') store_my_turn) =
     Some example_actions \<and>
   \<not> isMyTurn (onmessage 32 (TimerExpiredEvent 0 ''fold'') store_my_turn)"
proof -
  have tick: "is_timer_event (TimerTickEvent 0 29)" by simp
  have expired: "is_timer_event (TimerExpiredEvent 0 ''fold'')" by simp
  from timer_events_frame [OF tick, of 3 store_my_turn]
    timer_events_frame [OF expired, of 32 store_my_turn]
  show ?thesis by (simp add: store_my_turn_fields)
qed

text \<open>The claim as stated fails for the expiry event of a running countdown during the
  human's turn: the my-turn flag was true and is false afterwards.\<close>

theorem timer_events_counterexample:
  "\<not> (isMyTurn (onmessage 32 (TimerExpiredEvent 0 ''fold'') store_my_turn) =
        isMyTurn store_my_turn \<and>
      availableActions (onmessage 32 (TimerExpiredEvent 0 ''fold'') store_my_turn) =
        availableActions store_my_turn \<and>
      gameState (onmessage 32 (TimerExpiredEvent 0 ''fold'') store_my_turn) =
        gameState store_my_turn)"
  by (simp add: expireTimer_def store_my_turn_fields)

end
